theory Spec2Isabelle
  imports Main
begin

section \<open>ExcelDataTransformer: a shallow embedding\<close>

text \<open>
  The development follows \<^verbatim>\<open>ExcelDataTransformer.py\<close>: the detection of the format of an
  existing output file (\<^verbatim>\<open>detect_file_format\<close>), the marker-based extraction of tables from
  a sheet (\<^verbatim>\<open>_load_excel\<close>), the filter (\<^verbatim>\<open>filter_data\<close>) and the read-merge-write of
  the output document (\<^verbatim>\<open>update_output_file\<close>). Exceptions are values of the type
  \<open>error\<close>; a function that can raise returns \<open>error + 'a\<close>.
\<close>

datatype error =
    LoadFailed                      \<comment> \<open>\<^verbatim>\<open>ValueError("Failed to load Excel file: ...")\<close>\<close>
  | IndexError                      \<comment> \<open>\<^verbatim>\<open>df.iloc[:, 0]\<close> on a frame without columns\<close>
  | NoMarkersFound                  \<comment> \<open>\<^verbatim>\<open>ValueError("No '...' headers found in ...")\<close>\<close>
  | UndefinedVariableError string   \<comment> \<open>raised by \<^verbatim>\<open>DataFrame.query\<close> for a name it cannot resolve\<close>
  | AxisReference string            \<comment> \<open>not an exception: marks a reference to an axis of the frame, which is not evaluated here\<close>
  | InvalidComparison               \<comment> \<open>\<^verbatim>\<open>TypeError\<close>: ordering a string against a number\<close>
  | KeyError "string list"          \<comment> \<open>\<^verbatim>\<open>df[names]\<close>: the names that are not columns\<close>
  | EmptyOrCorruptFile              \<comment> \<open>\<^verbatim>\<open>ValueError("File ... is empty or corrupted")\<close>\<close>
  | UnknownFormat                   \<comment> \<open>\<^verbatim>\<open>ValueError("Unknown file format")\<close>\<close>
  | UnsupportedIncrementalUpdate    \<comment> \<open>\<^verbatim>\<open>ValueError("Cannot update CSV files incrementally")\<close>\<close>
  | DocumentParseError              \<comment> \<open>\<^verbatim>\<open>ValueError("Error reading or parsing ...")\<close>\<close>
  | Unhashable                      \<comment> \<open>\<^verbatim>\<open>TypeError("unhashable type: ...")\<close>\<close>
  | NotSerializable                 \<comment> \<open>\<^verbatim>\<open>TypeError("Object of type ... is not JSON serializable")\<close>\<close>
  | YamlDumpFailed                  \<comment> \<open>an exception of \<^verbatim>\<open>yaml.dump\<close>\<close>

subsection \<open>Text and the format detector\<close>

text \<open>
  A text is a list of 8-bit characters, read as code points below 256.
  \<open>isspace\<close> is Python's \<^verbatim>\<open>str.isspace\<close> on these code points: the characters that
  \<^verbatim>\<open>str.strip()\<close> removes.
\<close>

definition isspace :: "char \<Rightarrow> bool" where
  "isspace c = (of_char c \<in> set [9, 10, 11, 12, 13, 28, 29, 30, 31, 32, 133, 160 :: nat])"

definition strip :: "string \<Rightarrow> string" where
  "strip s = rev (dropWhile isspace (rev (dropWhile isspace s)))"

definition LF :: char where "LF = CHR 0x0A"
definition CR :: char where "CR = CHR 0x0D"

text \<open>
  \<^verbatim>\<open>f.readline()\<close> on a file opened in text mode: the characters up to and including the
  first line end, where a line end is \<open>LF\<close>, \<open>CR\<close> or \<open>CR LF\<close> and is returned as \<open>LF\<close>.
\<close>

fun readline :: "string \<Rightarrow> string" where
  "readline [] = []"
| "readline (c # cs) = (if c = LF \<or> c = CR then [LF] else c # readline cs)"

definition startswith :: "string \<Rightarrow> string \<Rightarrow> bool" where
  "startswith s p = (take (length p) s = p)"

text \<open>\<^verbatim>\<open>str.lower()\<close> on code points below 256.\<close>

definition lower_char :: "char \<Rightarrow> char" where
  "lower_char c =
     (let n = (of_char c :: nat)
      in if (65 \<le> n \<and> n \<le> 90) \<or> (192 \<le> n \<and> n \<le> 222 \<and> n \<noteq> 215)
         then char_of (n + 32) else c)"

definition lower :: "string \<Rightarrow> string" where
  "lower s = map lower_char s"

datatype format = Json | Yaml | Csv

text \<open>
  \<^verbatim>\<open>
  first_line = f.readline().strip()
  if not first_line: raise ValueError(empty or corrupted)
  if first_line.startswith('{'): return 'json'
  elif first_line.startswith('---'): return 'yaml'
  elif ',' in first_line or first_line.lower().startswith('sep='): return 'csv'
  else: raise ValueError("Unknown file format")
  \<close>
\<close>

definition detect_file_format :: "string \<Rightarrow> error + format" where
  "detect_file_format content =
     (let first_line = strip (readline content)
      in if first_line = [] then Inl EmptyOrCorruptFile
         else if startswith first_line ''{'' then Inr Json
         else if startswith first_line ''---'' then Inr Yaml
         else if CHR '','' \<in> set first_line \<or> startswith (lower first_line) ''sep=''
           then Inr Csv
         else Inl UnknownFormat)"

text \<open>
  The first line as the file holds it, without its line end and before any stripping:
  what the specification's sentence on detection calls the first line.
\<close>

definition raw_first_line :: "string \<Rightarrow> string" where
  "raw_first_line content = takeWhile (\<lambda>c. c \<noteq> LF \<and> c \<noteq> CR) content"

subsection \<open>Frames\<close>

text \<open>
  A \<^verbatim>\<open>pandas.DataFrame\<close> as \<^verbatim>\<open>read_excel\<close> returns it: the column labels and the
  rows, each row holding one cell per column. Labels are names (strings): the keyword
  arguments of \<^verbatim>\<open>assign\<close> and the names that \<^verbatim>\<open>select_columns.split(",")\<close> yields
  are strings. Numbers are integers; floating point is not modelled, apart from the
  missing value \<open>CNaN\<close>. \<^verbatim>\<open>read_excel\<close> makes the labels distinct.
\<close>

type_synonym label = string

datatype cell = CStr string | CNum int | CNaN

record dataframe =
  columns :: "label list"
  rows :: "cell list list"

definition wf_df :: "dataframe \<Rightarrow> bool" where
  "wf_df df =
     (distinct (columns df) \<and> list_all (\<lambda>r. length r = length (columns df)) (rows df))"

subsection \<open>Python values\<close>

text \<open>
  The values that \<^verbatim>\<open>update_output_file\<close> handles (its \<^verbatim>\<open>data\<close> is typed \<^verbatim>\<open>Any\<close>):
  what \<^verbatim>\<open>json.loads\<close> and \<^verbatim>\<open>yaml.safe_load\<close> return, and the frame that
  \<^verbatim>\<open>filter_data\<close> returns. A \<^verbatim>\<open>dict\<close> is an association list in insertion order.
\<close>

datatype pyval =
    PNone
  | PBool bool
  | PInt int
  | PStr string
  | PList "pyval list"
  | PDict "(pyval \<times> pyval) list"
  | PFrame dataframe

subsection \<open>The transformer and its configuration\<close>

text \<open>
  The fields of \<^verbatim>\<open>ExcelDataTransformer\<close> that the functions below read.
  \<^verbatim>\<open>__init__\<close> leaves \<^verbatim>\<open>header_keyword\<close> at \<^verbatim>\<open>None\<close>; \<^verbatim>\<open>configure\<close> sets every
  field, with the defaults of \<open>configure_defaults\<close>.
\<close>

record transformer =
  header_keyword :: "string option"
  start_table :: int
  end_table :: "int option"
  data_structure :: pyval

definition configure_defaults :: transformer where
  "configure_defaults =
     \<lparr> header_keyword = Some ''HEADER_KEYWORD_TEXT'',
       start_table = 0,
       end_table = None,
       data_structure = PDict [(PStr ''DATA_GROUP_COLLECTION'', PDict [])] \<rparr>"

subsection \<open>Slicing\<close>

text \<open>
  \<^verbatim>\<open>xs[start:stop]\<close> with step 1, as CPython adjusts the bounds: a negative bound counts
  from the end, and a bound outside the sequence is clipped to it.
\<close>

definition adjust_index :: "int \<Rightarrow> nat \<Rightarrow> nat" where
  "adjust_index i n =
     (if i < 0 then (if i + int n < 0 then 0 else nat (i + int n))
      else if int n \<le> i then n else nat i)"

definition iloc_slice :: "int \<Rightarrow> int option \<Rightarrow> 'a list \<Rightarrow> 'a list" where
  "iloc_slice start stop xs =
     (let n = length xs;
          lo = adjust_index start n;
          hi = (case stop of None \<Rightarrow> n | Some e \<Rightarrow> adjust_index e n)
      in take (hi - lo) (drop lo xs))"

text \<open>
  The specification's words for the same slice: the elements whose position lies in the
  half-open range between the two bounds, each bound counted from the end when negative
  and clipped to the sequence.
\<close>

definition clip_bound :: "int \<Rightarrow> int \<Rightarrow> int" where
  "clip_bound i n = max 0 (min n (if i < 0 then n + i else i))"

definition spec_slice :: "int \<Rightarrow> int option \<Rightarrow> 'a list \<Rightarrow> 'a list" where
  "spec_slice start stop xs =
     (let n = int (length xs);
          lo = clip_bound start n;
          hi = (case stop of None \<Rightarrow> n | Some e \<Rightarrow> clip_bound e n)
      in map (\<lambda>j. xs ! j) (filter (\<lambda>j. lo \<le> int j \<and> int j < hi) [0..<length xs]))"

subsection \<open>Extraction: \<^verbatim>\<open>_load_excel\<close>\<close>

text \<open>
  \<^verbatim>\<open>df.iloc[:, 0] == self.header_keyword\<close>: a cell equals the keyword when it is that
  string; no cell equals \<^verbatim>\<open>None\<close>.
\<close>

definition is_marker :: "string option \<Rightarrow> cell list \<Rightarrow> bool" where
  "is_marker kw r =
     (case kw of None \<Rightarrow> False
      | Some k \<Rightarrow> (case r of [] \<Rightarrow> False | c # _ \<Rightarrow> c = CStr k))"

text \<open>\<^verbatim>\<open>process_rows = df[df.iloc[:, 0] == self.header_keyword].index.tolist()\<close>\<close>

definition process_rows :: "string option \<Rightarrow> dataframe \<Rightarrow> nat list" where
  "process_rows kw df = filter (\<lambda>i. is_marker kw (rows df ! i)) [0..<length (rows df)]"

text \<open>
  \<^verbatim>\<open>.assign(**{df.columns[0]: df.iloc[process_rows[i]]})\<close> assigns the marker row, a
  \<^verbatim>\<open>Series\<close> indexed by the column labels, to column 0 of the segment, whose rows are
  indexed \<open>0, 1, ...\<close> after \<^verbatim>\<open>reset_index(drop=True)\<close>. pandas aligns the two indexes:
  no row number is a column name, so every row of the segment gets the missing value in
  column 0. When the segment has no rows, pandas gives the frame the index of the
  \<^verbatim>\<open>Series\<close> instead (\<^verbatim>\<open>DataFrame._ensure_valid_index\<close>): the result has one row per
  column label, holding the marker row's cell for that label in column 0 and the missing
  value elsewhere.
\<close>

definition assign_col0 :: "cell list \<Rightarrow> cell list list \<Rightarrow> cell list list" where
  "assign_col0 marker_row seg =
     (if seg = [] then map (\<lambda>v. v # replicate (length marker_row - 1) CNaN) marker_row
      else map (\<lambda>r. r[0 := CNaN]) seg)"

text \<open>
  \<^verbatim>\<open>
  tables = [df.iloc[process_rows[i] + 1:
                    process_rows[i + 1] if i + 1 < len(process_rows) else len(df)]
              .reset_index(drop=True).assign(...)
            for i in range(len(process_rows))]
  \<close>
\<close>

definition seg_start :: "nat list \<Rightarrow> nat \<Rightarrow> nat" where
  "seg_start pr i = pr ! i + 1"

definition seg_end :: "dataframe \<Rightarrow> nat list \<Rightarrow> nat \<Rightarrow> nat" where
  "seg_end df pr i = (if i + 1 < length pr then pr ! (i + 1) else length (rows df))"

definition tables :: "dataframe \<Rightarrow> nat list \<Rightarrow> cell list list list" where
  "tables df pr =
     map (\<lambda>i. assign_col0 (rows df ! (pr ! i))
                 (iloc_slice (int (seg_start pr i)) (Some (int (seg_end df pr i))) (rows df)))
         [0..<length pr]"

text \<open>
  The sheet is \<open>None\<close> when \<^verbatim>\<open>pd.read_excel\<close> raised.
  \<^verbatim>\<open>self.df = pd.concat(tables, ignore_index=True).iloc[self.start_table:self.end_table]\<close>
\<close>

definition load_excel :: "transformer \<Rightarrow> dataframe option \<Rightarrow> error + dataframe" where
  "load_excel self sheet =
     (case sheet of
        None \<Rightarrow> Inl LoadFailed
      | Some df \<Rightarrow>
          if columns df = [] then Inl IndexError
          else let marker_rows = process_rows (header_keyword self) df
               in if marker_rows = [] then Inl NoMarkersFound
                  else Inr (df\<lparr>rows := iloc_slice (start_table self) (end_table self)
                                          (concat (tables df marker_rows))\<rparr>))"

subsection \<open>The filter: \<^verbatim>\<open>filter_data\<close>\<close>

text \<open>
  \<^verbatim>\<open>DataFrame.query\<close> parses the where clause itself; the model starts from the parsed
  expression, in the grammar of comparisons and boolean connectives over column names,
  string literals and integer literals, with a column on at least one side of every
  comparison. \<open>None\<close> stands for a where clause that is \<^verbatim>\<open>None\<close> or empty, which
  \<^verbatim>\<open>filter_data\<close> skips.
\<close>

datatype cmpop = Eq | Ne | Lt | Le | Gt | Ge

datatype literal = StrLit string | NumLit int

datatype operand = Col label | Lit literal

datatype bexpr =
    Cmp cmpop label operand       \<comment> \<open>column, operator, column or literal\<close>
  | CmpLit cmpop literal label    \<comment> \<open>literal, operator, column\<close>
  | AndE bexpr bexpr
  | OrE bexpr bexpr
  | NotE bexpr

text \<open>The names of an expression, in the order in which the parser meets them.\<close>

fun operand_names :: "operand \<Rightarrow> label list" where
  "operand_names (Col c) = [c]"
| "operand_names (Lit _) = []"

fun names :: "bexpr \<Rightarrow> label list" where
  "names (Cmp _ c rhs) = c # operand_names rhs"
| "names (CmpLit _ _ c) = [c]"
| "names (AndE a b) = names a @ names b"
| "names (OrE a b) = names a @ names b"
| "names (NotE a) = names a"

text \<open>
  pandas resolves every name when it parses the expression, before it evaluates
  anything: against the columns first, then against the names under which it exposes the
  two axes of the frame. A name found in neither raises \<^verbatim>\<open>UndefinedVariableError\<close>.
  A name of the second kind that is not a column denotes an axis, not a column; the
  evaluation of such a reference is not modelled, and \<open>column\<close> marks it.
\<close>

definition axis_names :: "label list" where
  "axis_names = [''index'', ''columns'', ''ilevel_0'', ''clevel_0'']"

definition unresolved :: "dataframe \<Rightarrow> bexpr \<Rightarrow> label list" where
  "unresolved df e =
     filter (\<lambda>n. n \<notin> set (columns df) \<and> n \<notin> set axis_names) (names e)"

fun col_index :: "label list \<Rightarrow> label \<Rightarrow> nat option" where
  "col_index [] c = None"
| "col_index (x # xs) c =
     (if x = c then Some 0 else map_option Suc (col_index xs c))"

definition column :: "dataframe \<Rightarrow> label \<Rightarrow> error + cell list" where
  "column df c =
     (case col_index (columns df) c of
        Some i \<Rightarrow> Inr (map (\<lambda>r. r ! i) (rows df))
      | None \<Rightarrow> Inl (AxisReference c))"

text \<open>
  Comparison of two cells, as pandas compares object columns: a missing value differs
  from everything and is in no order with anything; strings compare by code point,
  numbers by value; a string and a number are unequal, and ordering them raises
  \<^verbatim>\<open>TypeError\<close>.
\<close>

fun str_less :: "string \<Rightarrow> string \<Rightarrow> bool" where
  "str_less [] [] = False"
| "str_less [] (b # bs) = True"
| "str_less (a # as) [] = False"
| "str_less (a # as) (b # bs) =
     ((of_char a :: nat) < of_char b \<or> (a = b \<and> str_less as bs))"

definition holds :: "cmpop \<Rightarrow> bool \<Rightarrow> bool \<Rightarrow> bool" where
  "holds op lt eq =
     (case op of Eq \<Rightarrow> eq | Ne \<Rightarrow> \<not> eq | Lt \<Rightarrow> lt | Le \<Rightarrow> lt \<or> eq
      | Gt \<Rightarrow> \<not> lt \<and> \<not> eq | Ge \<Rightarrow> \<not> lt)"

fun compare_cells :: "cmpop \<Rightarrow> cell \<Rightarrow> cell \<Rightarrow> error + bool" where
  "compare_cells op CNaN y = Inr (op = Ne)"
| "compare_cells op (CStr a) CNaN = Inr (op = Ne)"
| "compare_cells op (CNum a) CNaN = Inr (op = Ne)"
| "compare_cells op (CStr a) (CStr b) = Inr (holds op (str_less a b) (a = b))"
| "compare_cells op (CNum a) (CNum b) = Inr (holds op (a < b) (a = b))"
| "compare_cells op (CStr a) (CNum b) =
     (if op = Eq then Inr False else if op = Ne then Inr True else Inl InvalidComparison)"
| "compare_cells op (CNum a) (CStr b) =
     (if op = Eq then Inr False else if op = Ne then Inr True else Inl InvalidComparison)"

fun lit_cell :: "literal \<Rightarrow> cell" where
  "lit_cell (StrLit s) = CStr s"
| "lit_cell (NumLit n) = CNum n"

text \<open>The first error of a list of results, or all the values.\<close>

fun sequence :: "(error + 'a) list \<Rightarrow> error + 'a list" where
  "sequence [] = Inr []"
| "sequence (x # xs) =
     (case x of Inl e \<Rightarrow> Inl e
      | Inr v \<Rightarrow> (case sequence xs of Inl e \<Rightarrow> Inl e | Inr vs \<Rightarrow> Inr (v # vs)))"

fun operand_values :: "dataframe \<Rightarrow> operand \<Rightarrow> error + cell list" where
  "operand_values df (Col c) = column df c"
| "operand_values df (Lit l) = Inr (replicate (length (rows df)) (lit_cell l))"

text \<open>
  The evaluation is by whole columns: each comparison yields one truth value per row, and
  \<^verbatim>\<open>and\<close>, \<^verbatim>\<open>or\<close>, \<^verbatim>\<open>not\<close> combine these masks row by row, both sides evaluated.
\<close>

fun eval_mask :: "dataframe \<Rightarrow> bexpr \<Rightarrow> error + bool list" where
  "eval_mask df (Cmp op c rhs) =
     (case column df c of Inl e \<Rightarrow> Inl e
      | Inr xs \<Rightarrow>
          (case operand_values df rhs of Inl e \<Rightarrow> Inl e
           | Inr ys \<Rightarrow> sequence (map (\<lambda>(x, y). compare_cells op x y) (zip xs ys))))"
| "eval_mask df (CmpLit op l c) =
     (case column df c of Inl e \<Rightarrow> Inl e
      | Inr ys \<Rightarrow> sequence (map (\<lambda>y. compare_cells op (lit_cell l) y) ys))"
| "eval_mask df (AndE a b) =
     (case eval_mask df a of Inl e \<Rightarrow> Inl e
      | Inr m1 \<Rightarrow>
          (case eval_mask df b of Inl e \<Rightarrow> Inl e
           | Inr m2 \<Rightarrow> Inr (map (\<lambda>(p, q). p \<and> q) (zip m1 m2))))"
| "eval_mask df (OrE a b) =
     (case eval_mask df a of Inl e \<Rightarrow> Inl e
      | Inr m1 \<Rightarrow>
          (case eval_mask df b of Inl e \<Rightarrow> Inl e
           | Inr m2 \<Rightarrow> Inr (map (\<lambda>(p, q). p \<or> q) (zip m1 m2))))"
| "eval_mask df (NotE a) =
     (case eval_mask df a of Inl e \<Rightarrow> Inl e | Inr m \<Rightarrow> Inr (map Not m))"

text \<open>\<^verbatim>\<open>df.query(where_clause)\<close>: the rows whose mask is true, all columns kept.\<close>

definition query :: "dataframe \<Rightarrow> bexpr \<Rightarrow> error + dataframe" where
  "query df e =
     (case unresolved df e of
        n # _ \<Rightarrow> Inl (UndefinedVariableError n)
      | [] \<Rightarrow>
          (case eval_mask df e of
             Inl err \<Rightarrow> Inl err
           | Inr keep \<Rightarrow> Inr (df\<lparr>rows := map fst (filter snd (zip (rows df) keep))\<rparr>)))"

text \<open>\<^verbatim>\<open>select_columns.split(",")\<close>\<close>

fun split_comma :: "string \<Rightarrow> string list" where
  "split_comma [] = [[]]"
| "split_comma (c # cs) =
     (if c = CHR '','' then [] # split_comma cs
      else (case split_comma cs of [] \<Rightarrow> [[c]] | w # ws \<Rightarrow> (c # w) # ws))"

text \<open>
  \<^verbatim>\<open>df[names]\<close>: the named columns in the order given; \<^verbatim>\<open>KeyError\<close> when a name is
  not a column.
\<close>

definition cell_at :: "label list \<Rightarrow> cell list \<Rightarrow> label \<Rightarrow> cell" where
  "cell_at cols r n = (case col_index cols n of Some i \<Rightarrow> r ! i | None \<Rightarrow> CNaN)"

definition getitem_columns :: "dataframe \<Rightarrow> label list \<Rightarrow> error + dataframe" where
  "getitem_columns df ns =
     (let missing = filter (\<lambda>n. n \<notin> set (columns df)) ns
      in if missing \<noteq> [] then Inl (KeyError missing)
         else Inr \<lparr> columns = ns,
                    rows = map (\<lambda>r. map (cell_at (columns df) r) ns) (rows df) \<rparr>)"

text \<open>
  \<^verbatim>\<open>
  filtered_df = self.df if not where_clause else self.df.query(where_clause)
  return filtered_df[select_columns.split(",")] if select_columns else filtered_df
  \<close>
  The first argument is \<^verbatim>\<open>self.df\<close>.
\<close>

definition filter_data :: "dataframe \<Rightarrow> string option \<Rightarrow> bexpr option \<Rightarrow> error + dataframe" where
  "filter_data df select_columns where_clause =
     (case (case where_clause of None \<Rightarrow> Inr df | Some e \<Rightarrow> query df e) of
        Inl err \<Rightarrow> Inl err
      | Inr filtered_df \<Rightarrow>
          (case select_columns of
             None \<Rightarrow> Inr filtered_df
           | Some s \<Rightarrow>
               if s = [] then Inr filtered_df
               else getitem_columns filtered_df (split_comma s)))"

subsection \<open>The output document: \<^verbatim>\<open>update_output_file\<close>\<close>

text \<open>
  The JSON and YAML libraries are taken as given: the text that \<^verbatim>\<open>json.dump\<close> with
  \<^verbatim>\<open>indent=2\<close> writes for a value it can serialise, the value that \<^verbatim>\<open>json.loads\<close>
  and \<^verbatim>\<open>yaml.safe_load\<close> decode (\<open>None\<close> when they raise), and the text that
  \<^verbatim>\<open>yaml.dump\<close> writes (\<open>None\<close> when it raises). A decoded value is a tree: a YAML
  document whose anchors make two keys share one mapping is not represented, and the
  decoders return no frame.
\<close>

record codecs =
  json_text :: "pyval \<Rightarrow> string"
  json_loads :: "string \<Rightarrow> pyval option"
  yaml_dump :: "pyval \<Rightarrow> string option"
  yaml_load :: "string \<Rightarrow> pyval option"

text \<open>
  What \<^verbatim>\<open>json.dump\<close> accepts: \<^verbatim>\<open>None\<close>, booleans, numbers, strings, lists and
  dictionaries of such values, the keys of a dictionary being strings, numbers, booleans
  or \<^verbatim>\<open>None\<close>. For anything else, a \<^verbatim>\<open>DataFrame\<close> included, the encoder raises
  \<^verbatim>\<open>TypeError\<close>.
\<close>

fun json_key_ok :: "pyval \<Rightarrow> bool" where
  "json_key_ok PNone = True"
| "json_key_ok (PBool b) = True"
| "json_key_ok (PInt i) = True"
| "json_key_ok (PStr s) = True"
| "json_key_ok (PList xs) = False"
| "json_key_ok (PDict kvs) = False"
| "json_key_ok (PFrame df) = False"

fun json_serializable :: "pyval \<Rightarrow> bool" where
  "json_serializable PNone = True"
| "json_serializable (PBool b) = True"
| "json_serializable (PInt i) = True"
| "json_serializable (PStr s) = True"
| "json_serializable (PList xs) = list_all json_serializable xs"
| "json_serializable (PDict kvs) =
     list_all (\<lambda>kv. json_key_ok (fst kv) \<and> json_serializable (snd kv)) kvs"
| "json_serializable (PFrame df) = False"

text \<open>Lists, dictionaries and frames cannot be keys of a dictionary.\<close>

fun hashable :: "pyval \<Rightarrow> bool" where
  "hashable (PList xs) = False"
| "hashable (PDict kvs) = False"
| "hashable (PFrame df) = False"
| "hashable v = True"

text \<open>
  Dictionary keys are compared with \<^verbatim>\<open>==\<close>, under which \<^verbatim>\<open>True\<close> is \<open>1\<close> and
  \<^verbatim>\<open>False\<close> is \<open>0\<close>. \<open>dict_get\<close> is the lookup; \<open>dict_set\<close> is \<^verbatim>\<open>d[k] = v\<close>: the
  value of an existing key is replaced where it stands, a new key is added at the end.
\<close>

fun norm_key :: "pyval \<Rightarrow> pyval" where
  "norm_key (PBool b) = PInt (if b then 1 else 0)"
| "norm_key v = v"

fun dict_get :: "(pyval \<times> pyval) list \<Rightarrow> pyval \<Rightarrow> pyval option" where
  "dict_get [] k = None"
| "dict_get ((k', v) # kvs) k =
     (if norm_key k' = norm_key k then Some v else dict_get kvs k)"

fun dict_set :: "(pyval \<times> pyval) list \<Rightarrow> pyval \<Rightarrow> pyval \<Rightarrow> (pyval \<times> pyval) list" where
  "dict_set [] k v = [(k, v)]"
| "dict_set ((k', v') # kvs) k v =
     (if norm_key k' = norm_key k then (k', v) # kvs else (k', v') # dict_set kvs k v)"

text \<open>
  \<^verbatim>\<open>parser.data_structure['DATA_GROUP_COLLECTION']\<close>: the lookup raises unless
  \<^verbatim>\<open>data_structure\<close> is a dictionary with that key.
\<close>

definition root_key :: "pyval \<Rightarrow> pyval option" where
  "root_key ds =
     (case ds of PDict kvs \<Rightarrow> dict_get kvs (PStr ''DATA_GROUP_COLLECTION'') | _ \<Rightarrow> None)"

text \<open>
  \<^verbatim>\<open>content.setdefault(rk, {}).setdefault(data_group, {})[category] = data\<close>.
  \<^verbatim>\<open>setdefault\<close> returns the value already stored under the key, or stores and returns
  the empty dictionary; it exists on dictionaries only, and the key must be hashable.
  \<open>None\<close> when any step raises.
\<close>

definition merge_leaf :: "pyval \<Rightarrow> pyval \<Rightarrow> string \<Rightarrow> string \<Rightarrow> pyval \<Rightarrow> pyval option" where
  "merge_leaf content rk data_group category data =
     (case content of
        PDict root \<Rightarrow>
          if \<not> hashable rk then None
          else (case (case dict_get root rk of Some g \<Rightarrow> g | None \<Rightarrow> PDict []) of
                  PDict grp \<Rightarrow>
                    (case (case dict_get grp (PStr data_group) of Some c \<Rightarrow> c | None \<Rightarrow> PDict []) of
                       PDict cat \<Rightarrow>
                         Some (PDict (dict_set root rk
                                 (PDict (dict_set grp (PStr data_group)
                                    (PDict (dict_set cat (PStr category) data))))))
                     | _ \<Rightarrow> None)
                | _ \<Rightarrow> None)
      | _ \<Rightarrow> None)"

text \<open>
  The value that a document stores under a root key, a data group and a category, if
  there is one: \<^verbatim>\<open>doc[r][g][k]\<close>.
\<close>

definition sub :: "pyval \<Rightarrow> pyval \<Rightarrow> pyval option" where
  "sub v k = (case v of PDict d \<Rightarrow> dict_get d k | _ \<Rightarrow> None)"

definition leaf_at :: "pyval \<Rightarrow> pyval \<Rightarrow> pyval \<Rightarrow> pyval \<Rightarrow> pyval option" where
  "leaf_at doc r g k =
     (case sub doc r of
        None \<Rightarrow> None
      | Some x \<Rightarrow> (case sub x g of None \<Rightarrow> None | Some y \<Rightarrow> sub y k))"

text \<open>
  The target file: absent, holding a text, or torn, that is opened for writing and left
  with whatever the encoder had written when it raised.
\<close>

datatype file_state = Absent | Text string | Torn

text \<open>
  How a call ends: it returns, having printed an error message or not, or it raises.
\<close>

datatype outcome = Returned "error option" | Raised error

text \<open>
  \<^verbatim>\<open>
  with open(output_file, 'w') as f:
      if output_format == 'json': json.dump(content, f, indent=2)
      elif output_format == 'yaml': yaml.dump(content, f, default_flow_style=False)
  \<close>
  Opening the file empties it.
\<close>

definition write_document :: "codecs \<Rightarrow> format \<Rightarrow> pyval \<Rightarrow> outcome \<times> file_state" where
  "write_document c output_format content =
     (case output_format of
        Json \<Rightarrow>
          if json_serializable content then (Returned None, Text (json_text c content))
          else (Raised NotSerializable, Torn)
      | Yaml \<Rightarrow>
          (case yaml_dump c content of
             Some t \<Rightarrow> (Returned None, Text t)
           | None \<Rightarrow> (Raised YamlDumpFailed, Torn))
      | Csv \<Rightarrow> (Returned None, Text []))"

definition read_and_merge ::
  "codecs \<Rightarrow> format \<Rightarrow> string \<Rightarrow> transformer \<Rightarrow> string \<Rightarrow> string \<Rightarrow> pyval \<Rightarrow> pyval option" where
  "read_and_merge c output_format text parser data_group category data =
     (case (if output_format = Json then json_loads c text else yaml_load c text) of
        None \<Rightarrow> None
      | Some content \<Rightarrow>
          (case root_key (data_structure parser) of
             None \<Rightarrow> None
           | Some rk \<Rightarrow> merge_leaf content rk data_group category data))"

text \<open>
  \<^verbatim>\<open>update_output_file(output_file, data, parser, data_group, category)\<close>. The second
  argument of the model is the file at \<^verbatim>\<open>output_file\<close>: \<open>None\<close> when
  \<^verbatim>\<open>os.path.exists\<close> is false, its text otherwise. The result is how the call ends and
  the file it leaves.
  \<^verbatim>\<open>
  if os.path.exists(output_file):
      try: output_format = detect_file_format(output_file)
      except ValueError as e: print(...); return
      if output_format == 'csv': raise ValueError("Cannot update CSV files incrementally")
      try: (read, decode, merge)
      except Exception as e: raise ValueError(...)
  else:
      content = {parser.data_structure: {data_group: {category: data}}}
      output_format = 'json'
  (write)
  \<close>
\<close>

definition file_of :: "string option \<Rightarrow> file_state" where
  "file_of f = (case f of None \<Rightarrow> Absent | Some t \<Rightarrow> Text t)"

definition update_output_file ::
  "codecs \<Rightarrow> string option \<Rightarrow> pyval \<Rightarrow> transformer \<Rightarrow> string \<Rightarrow> string
     \<Rightarrow> outcome \<times> file_state" where
  "update_output_file c output_file data parser data_group category =
     (case output_file of
        Some text \<Rightarrow>
          (case detect_file_format text of
             Inl e \<Rightarrow> (Returned (Some e), Text text)
           | Inr output_format \<Rightarrow>
               if output_format = Csv then (Raised UnsupportedIncrementalUpdate, Text text)
               else (case read_and_merge c output_format text parser data_group category data of
                       None \<Rightarrow> (Raised DocumentParseError, Text text)
                     | Some content \<Rightarrow> write_document c output_format content))
      | None \<Rightarrow>
          if hashable (data_structure parser)
          then write_document c Json
                 (PDict [(data_structure parser,
                          PDict [(PStr data_group, PDict [(PStr category, data)])])])
          else (Raised Unhashable, Absent))"

subsection \<open>Example inputs\<close>

text \<open>A sheet with a row before its only marker row.\<close>

definition sheet_leading_row :: dataframe where
  "sheet_leading_row =
     \<lparr> columns = [''A'', ''B''],
       rows = [[CStr ''x'', CNum 0], [CStr ''H'', CNum 1], [CStr ''y'', CNum 2]] \<rparr>"

text \<open>A sheet with two marker rows, each followed by one data row.\<close>

definition sheet_two_tables :: dataframe where
  "sheet_two_tables =
     \<lparr> columns = [''A'', ''B''],
       rows = [[CStr ''x'', CNum 0], [CStr ''H'', CNum 1], [CStr ''y'', CNum 2],
               [CStr ''H'', CNum 3], [CStr ''z'', CNum 4]] \<rparr>"

text \<open>A sheet whose first marker row is directly followed by the second.\<close>

definition sheet_adjacent_markers :: dataframe where
  "sheet_adjacent_markers =
     \<lparr> columns = [''A'', ''B''],
       rows = [[CStr ''H'', CNum 1], [CStr ''H'', CNum 2], [CStr ''x'', CNum 3]] \<rparr>"

text \<open>A table for the filter.\<close>

definition measurements :: dataframe where
  "measurements =
     \<lparr> columns = [''DOG'', ''SIZE'', ''NOTE''],
       rows = [[CStr ''DOG_t'', CNum 25, CStr ''a''],
               [CStr ''DOG_u'', CNum 25, CNaN],
               [CStr ''DOG_t'', CNum 30, CStr ''c'']] \<rparr>"

text \<open>Codecs that decode nothing, for the calls that never reach a codec.\<close>

definition no_codecs :: codecs where
  "no_codecs =
     \<lparr> json_text = (\<lambda>v. []), json_loads = (\<lambda>t. None),
       yaml_dump = (\<lambda>v. None), yaml_load = (\<lambda>t. None) \<rparr>"

text \<open>
  A transformer configured with a root key: \<^verbatim>\<open>data_structure\<close> maps
  \<^verbatim>\<open>'DATA_GROUP_COLLECTION'\<close> to the name \<^verbatim>\<open>'ROOT'\<close>.
\<close>

definition rooted :: transformer where
  "rooted =
     configure_defaults
       \<lparr> data_structure := PDict [(PStr ''DATA_GROUP_COLLECTION'', PStr ''ROOT'')] \<rparr>"

text \<open>A decoded document with one leaf, and codecs that decode one text to it.\<close>

definition old_document :: pyval where
  "old_document =
     PDict [(PStr ''ROOT'', PDict [(PStr ''G0'', PDict [(PStr ''C0'', PList [])])])]"

definition one_codecs :: codecs where
  "one_codecs =
     \<lparr> json_text = (\<lambda>v. ''{}''),
       json_loads = (\<lambda>t. if t = ''{old}'' then Some old_document else None),
       yaml_dump = (\<lambda>v. Some ''--- new''),
       yaml_load = (\<lambda>t. if t = ''--- old'' then Some old_document else None) \<rparr>"

section \<open>Properties\<close>

subsection \<open>Format detection\<close>

lemma startswith_iff: "startswith s p \<longleftrightarrow> (\<exists>r. s = p @ r)"
  unfolding startswith_def
  by (metis append_eq_conv_conj append_take_drop_id)

text \<open>
  C5, amended. Format detection reads the first line only and classifies the
  whitespace-stripped first line: stripped line empty gives \<open>EmptyOrCorruptFile\<close>;
  starting with an opening brace gives JSON; otherwise starting with three dashes gives
  YAML; otherwise a comma in it, or \<open>sep=\<close> at its start in any letter case, gives CSV;
  anything else gives \<open>UnknownFormat\<close>. Two files with the same first line are
  classified alike, and there is no sixth outcome.
\<close>

theorem detect_file_format_stripped_line:
  "(strip (readline c) = [] \<longrightarrow> detect_file_format c = Inl EmptyOrCorruptFile)
   \<and> ((\<exists>r. strip (readline c) = ''{'' @ r) \<longrightarrow> detect_file_format c = Inr Json)
   \<and> ((\<exists>r. strip (readline c) = ''---'' @ r) \<longrightarrow> detect_file_format c = Inr Yaml)
   \<and> (strip (readline c) \<noteq> []
        \<and> \<not> (\<exists>r. strip (readline c) = ''{'' @ r) \<and> \<not> (\<exists>r. strip (readline c) = ''---'' @ r)
        \<and> (CHR '','' \<in> set (strip (readline c)) \<or> (\<exists>r. lower (strip (readline c)) = ''sep='' @ r))
      \<longrightarrow> detect_file_format c = Inr Csv)
   \<and> (strip (readline c) \<noteq> []
        \<and> \<not> (\<exists>r. strip (readline c) = ''{'' @ r) \<and> \<not> (\<exists>r. strip (readline c) = ''---'' @ r)
        \<and> CHR '','' \<notin> set (strip (readline c)) \<and> \<not> (\<exists>r. lower (strip (readline c)) = ''sep='' @ r)
      \<longrightarrow> detect_file_format c = Inl UnknownFormat)
   \<and> (readline c = readline c' \<longrightarrow> detect_file_format c = detect_file_format c')
   \<and> (detect_file_format c = Inr Json \<or> detect_file_format c = Inr Yaml
        \<or> detect_file_format c = Inr Csv \<or> detect_file_format c = Inl EmptyOrCorruptFile
        \<or> detect_file_format c = Inl UnknownFormat)"
  unfolding detect_file_format_def Let_def startswith_iff
  by auto

lemmas text_eval =
  strip_def isspace_def LF_def CR_def startswith_def lower_def lower_char_def

theorem detect_file_format_stripped_line_witness:
  "detect_file_format [] = Inl EmptyOrCorruptFile
   \<and> detect_file_format [CHR ''{'', CHR ''a'', LF, CHR ''b''] = Inr Json
   \<and> detect_file_format ''--- a'' = Inr Yaml
   \<and> detect_file_format ''a,b,c'' = Inr Csv
   \<and> detect_file_format ''SEP=;'' = Inr Csv
   \<and> detect_file_format ''???'' = Inl UnknownFormat
   \<and> detect_file_format [CHR ''x'', LF, CHR '',''] = detect_file_format [CHR ''x'', LF]"
proof -
  have 1: "strip (readline []) = []"
    by (simp add: text_eval)
  have 2: "\<exists>r. strip (readline [CHR ''{'', CHR ''a'', LF, CHR ''b'']) = ''{'' @ r"
    by (simp add: text_eval)
  have 3: "\<exists>r. strip (readline ''--- a'') = ''---'' @ r"
    by (simp add: text_eval)
  have 4: "strip (readline ''a,b,c'') \<noteq> []
        \<and> \<not> (\<exists>r. strip (readline ''a,b,c'') = ''{'' @ r)
        \<and> \<not> (\<exists>r. strip (readline ''a,b,c'') = ''---'' @ r)
        \<and> (CHR '','' \<in> set (strip (readline ''a,b,c''))
            \<or> (\<exists>r. lower (strip (readline ''a,b,c'')) = ''sep='' @ r))"
    by (simp add: text_eval)
  have s5: "strip (readline ''SEP=;'') = ''SEP=;''"
    by (simp add: text_eval)
  have l5: "lower ''SEP=;'' = ''sep='' @ '';''"
    by code_simp
  have 5: "strip (readline ''SEP=;'') \<noteq> []
        \<and> \<not> (\<exists>r. strip (readline ''SEP=;'') = ''{'' @ r)
        \<and> \<not> (\<exists>r. strip (readline ''SEP=;'') = ''---'' @ r)
        \<and> (CHR '','' \<in> set (strip (readline ''SEP=;''))
            \<or> (\<exists>r. lower (strip (readline ''SEP=;'')) = ''sep='' @ r))"
    unfolding s5 using l5 by auto
  have 6: "strip (readline ''???'') \<noteq> []
        \<and> \<not> (\<exists>r. strip (readline ''???'') = ''{'' @ r)
        \<and> \<not> (\<exists>r. strip (readline ''???'') = ''---'' @ r)
        \<and> CHR '','' \<notin> set (strip (readline ''???''))
        \<and> \<not> (\<exists>r. lower (strip (readline ''???'')) = ''sep='' @ r)"
    by (simp add: text_eval)
  have 7: "readline [CHR ''x'', LF, CHR '',''] = readline [CHR ''x'', LF]"
    by (simp add: text_eval)
  from 1 detect_file_format_stripped_line[of "[]"]
  have a: "detect_file_format [] = Inl EmptyOrCorruptFile" by blast
  from 2 detect_file_format_stripped_line[of "[CHR ''{'', CHR ''a'', LF, CHR ''b'']"]
  have b: "detect_file_format [CHR ''{'', CHR ''a'', LF, CHR ''b''] = Inr Json" by blast
  from 3 detect_file_format_stripped_line[of "''--- a''"]
  have c: "detect_file_format ''--- a'' = Inr Yaml" by blast
  from 4 detect_file_format_stripped_line[of "''a,b,c''"]
  have d: "detect_file_format ''a,b,c'' = Inr Csv" by blast
  from 5 detect_file_format_stripped_line[of "''SEP=;''"]
  have e: "detect_file_format ''SEP=;'' = Inr Csv" by blast
  from 6 detect_file_format_stripped_line[of "''???''"]
  have f: "detect_file_format ''???'' = Inl UnknownFormat" by blast
  from 7 detect_file_format_stripped_line[of "[CHR ''x'', LF, CHR '','']" "[CHR ''x'', LF]"]
  have g: "detect_file_format [CHR ''x'', LF, CHR '',''] = detect_file_format [CHR ''x'', LF]"
    by blast
  from a b c d e f g show ?thesis by blast
qed

text \<open>
  C5 as the specification words it, on the first line as the file holds it, fails. The
  first line of the file that holds a space and an opening brace is not empty, does not
  start with a brace or with dashes, holds no comma and does not start with \<open>sep=\<close>;
  the detector answers JSON, not \<open>UnknownFormat\<close>.
\<close>

theorem detect_file_format_unstripped_counterexample:
  "raw_first_line '' {'' \<noteq> []
   \<and> \<not> startswith (raw_first_line '' {'') ''{''
   \<and> \<not> startswith (raw_first_line '' {'') ''---''
   \<and> CHR '','' \<notin> set (raw_first_line '' {'')
   \<and> \<not> startswith (lower (raw_first_line '' {'')) ''sep=''
   \<and> detect_file_format '' {'' = Inr Json
   \<and> detect_file_format '' {'' \<noteq> Inl UnknownFormat"
  by (simp add: raw_first_line_def detect_file_format_def text_eval)

text \<open>
  C10. The detector tests JSON, then YAML, then CSV on the whitespace-stripped first
  line: a stripped line that starts with an opening brace is JSON, and one that starts
  with three dashes is YAML, whether or not the line holds a comma.
\<close>

theorem detect_file_format_order:
  "(startswith (strip (readline c)) ''{'' \<longrightarrow> detect_file_format c = Inr Json)
   \<and> (startswith (strip (readline c)) ''---'' \<longrightarrow> detect_file_format c = Inr Yaml)"
  unfolding detect_file_format_def Let_def startswith_iff
  by auto

theorem detect_file_format_order_witness:
  "CHR '','' \<in> set (strip (readline ''{a,b}''))
   \<and> detect_file_format ''{a,b}'' = Inr Json
   \<and> CHR '','' \<in> set (strip (readline ''  --- a, b''))
   \<and> detect_file_format ''  --- a, b'' = Inr Yaml"
proof -
  have 1: "startswith (strip (readline ''{a,b}'')) ''{''"
    by (simp add: text_eval)
  have 2: "startswith (strip (readline ''  --- a, b'')) ''---''"
    by (simp add: text_eval)
  have 3: "CHR '','' \<in> set (strip (readline ''{a,b}''))"
    by (simp add: text_eval)
  have 4: "CHR '','' \<in> set (strip (readline ''  --- a, b''))"
    by (simp add: text_eval)
  from 1 detect_file_format_order[of "''{a,b}''"]
  have a: "detect_file_format ''{a,b}'' = Inr Json" by blast
  from 2 detect_file_format_order[of "''  --- a, b''"]
  have b: "detect_file_format ''  --- a, b'' = Inr Yaml" by blast
  from 3 a 4 b show ?thesis by blast
qed

subsection \<open>Slicing\<close>

lemma adjust_index_le: "adjust_index i n \<le> n"
  by (auto simp: adjust_index_def)

lemma adjust_index_clip: "int (adjust_index i n) = clip_bound i (int n)"
  by (auto simp: adjust_index_def clip_bound_def)

lemma filter_range_upt:
  "hi \<le> n \<Longrightarrow> filter (\<lambda>j. lo \<le> j \<and> j < hi) [0..<n] = [lo..<hi]"
proof (induction n arbitrary: hi)
  case 0
  then show ?case by simp
next
  case (Suc n)
  show ?case
  proof (cases "hi = Suc n")
    case True
    have "filter (\<lambda>j. lo \<le> j \<and> j < Suc n) [0..<n] = filter (\<lambda>j. lo \<le> j \<and> j < n) [0..<n]"
      by (rule filter_cong) auto
    with Suc.IH[of n] True show ?thesis by (auto simp: upt_rec[of lo "Suc n"])
  next
    case False
    with Suc.prems have "hi \<le> n" by simp
    with Suc.IH[of hi] show ?thesis by auto
  qed
qed

lemma map_nth_upt_take_drop:
  assumes "hi \<le> length xs"
  shows "map (\<lambda>j. xs ! j) [lo..<hi] = take (hi - lo) (drop lo xs)"
proof -
  have "take (hi - lo) (drop lo xs)
        = take (hi - lo) (drop lo (map (\<lambda>j. xs ! j) [0..<length xs]))"
    by (simp add: map_nth)
  also have "\<dots> = map (\<lambda>j. xs ! j) (take (hi - lo) [lo..<length xs])"
    by (simp add: take_map drop_map)
  also have "take (hi - lo) [lo..<length xs] = [lo..<hi]"
  proof (cases "lo \<le> hi")
    case True
    with assms show ?thesis by (simp add: take_upt)
  next
    case False
    then show ?thesis by simp
  qed
  finally show ?thesis by simp
qed

lemma iloc_slice_spec: "iloc_slice start stop xs = spec_slice start stop xs"
proof -
  define n where "n = length xs"
  define lo where "lo = adjust_index start n"
  define hi where "hi = (case stop of None \<Rightarrow> n | Some e \<Rightarrow> adjust_index e n)"
  have hi_le: "hi \<le> length xs"
    by (simp add: hi_def n_def adjust_index_le split: option.split)
  have lo_int: "clip_bound start (int n) = int lo"
    by (simp add: lo_def adjust_index_clip)
  have hi_int: "(case stop of None \<Rightarrow> int n | Some e \<Rightarrow> clip_bound e (int n)) = int hi"
    by (simp add: hi_def adjust_index_clip split: option.split)
  have "spec_slice start stop xs
        = map (\<lambda>j. xs ! j) (filter (\<lambda>j. lo \<le> j \<and> j < hi) [0..<length xs])"
    unfolding spec_slice_def Let_def n_def[symmetric] lo_int hi_int by simp
  also have "\<dots> = map (\<lambda>j. xs ! j) [lo..<hi]"
    using hi_le by (simp add: filter_range_upt)
  also have "\<dots> = take (hi - lo) (drop lo xs)"
    using hi_le by (rule map_nth_upt_take_drop)
  also have "\<dots> = iloc_slice start stop xs"
    unfolding iloc_slice_def Let_def n_def[symmetric] lo_def hi_def by simp
  finally show ?thesis by simp
qed

lemma iloc_slice_all: "iloc_slice 0 None xs = xs"
  by (simp add: iloc_slice_def adjust_index_def)

lemma length_iloc_slice: "length (iloc_slice start stop xs) \<le> length xs"
  by (simp add: iloc_slice_def Let_def)

text \<open>
  C8. The slice with \<open>start_table = 0\<close> and \<open>end_table\<close> unset is the identity on the
  concatenated table. In general the slice keeps, in order, the rows whose position lies
  in the half-open range between the two bounds, a negative bound counted from the end
  and a bound outside the table clipped to it; it never fails, and whether
  \<^verbatim>\<open>_load_excel\<close> fails does not depend on the bounds.
\<close>

theorem iloc_slice_semantics:
  "iloc_slice 0 None xs = xs
   \<and> iloc_slice start stop xs = spec_slice start stop xs
   \<and> length (iloc_slice start stop xs) \<le> length xs
   \<and> (case load_excel self sheet of
         Inl e \<Rightarrow> True
       | Inr r \<Rightarrow>
           (\<exists>df. sheet = Some df
              \<and> rows r = iloc_slice (start_table self) (end_table self)
                         (concat (tables df (process_rows (header_keyword self) df)))))
   \<and> (case load_excel (self\<lparr>start_table := 0, end_table := None\<rparr>) sheet of
         Inl e \<Rightarrow> True
       | Inr r \<Rightarrow>
           (\<exists>df. sheet = Some df
              \<and> rows r = concat (tables df (process_rows (header_keyword self) df))))
   \<and> isl (load_excel (self\<lparr>start_table := start, end_table := stop\<rparr>) sheet)
       = isl (load_excel self sheet)"
proof -
  have 4: "case load_excel self sheet of
         Inl e \<Rightarrow> True
       | Inr r \<Rightarrow>
           (\<exists>df. sheet = Some df
              \<and> rows r = iloc_slice (start_table self) (end_table self)
                         (concat (tables df (process_rows (header_keyword self) df))))"
    by (auto simp: load_excel_def Let_def split: option.splits sum.splits if_splits)
  have 5: "case load_excel (self\<lparr>start_table := 0, end_table := None\<rparr>) sheet of
         Inl e \<Rightarrow> True
       | Inr r \<Rightarrow>
           (\<exists>df. sheet = Some df
              \<and> rows r = concat (tables df (process_rows (header_keyword self) df)))"
    by (auto simp: load_excel_def Let_def iloc_slice_all split: option.splits sum.splits if_splits)
  have 6: "isl (load_excel (self\<lparr>start_table := start, end_table := stop\<rparr>) sheet)
       = isl (load_excel self sheet)"
    by (simp add: load_excel_def Let_def split: option.split)
  from iloc_slice_all iloc_slice_spec length_iloc_slice 4 5 6 show ?thesis by blast
qed

subsection \<open>Extraction\<close>

lemma adjust_index_nat: "n \<le> m \<Longrightarrow> adjust_index (int n) m = n"
  by (auto simp: adjust_index_def)

lemma process_rows_sorted: "sorted_wrt (<) (process_rows kw df)"
  by (simp add: process_rows_def sorted_wrt_filter)

lemma process_rows_bound: "p \<in> set (process_rows kw df) \<Longrightarrow> p < length (rows df)"
  by (simp add: process_rows_def)

lemma process_rows_set:
  "set (process_rows kw df) = {j. j < length (rows df) \<and> is_marker kw (rows df ! j)}"
  by (auto simp: process_rows_def)

lemma process_rows_count:
  "length (process_rows kw df) = length (filter (is_marker kw) (rows df))"
proof -
  have "filter (is_marker kw) (rows df)
        = filter (is_marker kw) (map (\<lambda>i. rows df ! i) [0..<length (rows df)])"
    by (simp add: map_nth)
  also have "\<dots> = map (\<lambda>i. rows df ! i) (process_rows kw df)"
    by (simp add: filter_map process_rows_def comp_def)
  finally show ?thesis by simp
qed

lemma seg_end_le:
  "\<forall>p \<in> set pr. p < length (rows df) \<Longrightarrow> i < length pr \<Longrightarrow> seg_end df pr i \<le> length (rows df)"
  by (auto simp: seg_end_def dest!: nth_mem[of "Suc i" pr] intro: less_imp_le)

lemma segment_slice:
  assumes "seg_end df pr i \<le> length (rows df)" "seg_start pr i < seg_end df pr i"
  shows "iloc_slice (int (seg_start pr i)) (Some (int (seg_end df pr i))) (rows df)
         = map (\<lambda>j. rows df ! j) [seg_start pr i..<seg_end df pr i]"
  using assms
  by (simp add: iloc_slice_def Let_def adjust_index_nat map_nth_upt_take_drop)

lemma range_sum:
  "sorted_wrt (<) pr \<Longrightarrow> \<forall>p \<in> set pr. p < n \<Longrightarrow> pr \<noteq> [] \<Longrightarrow>
   (\<Sum>i\<leftarrow>[0..<length pr]. (if i + 1 < length pr then pr ! (i + 1) else n) - (pr ! i + 1))
     + length pr + hd pr = n"
proof (induction pr)
  case Nil
  then show ?case by simp
next
  case (Cons p ps)
  show ?case
  proof (cases ps)
    case Nil
    with Cons.prems show ?thesis by simp
  next
    case (Cons q qs)
    with Cons.prems have pq: "p < q" by simp
    have IH: "(\<Sum>i\<leftarrow>[0..<length ps]. (if i + 1 < length ps then ps ! (i + 1) else n) - (ps ! i + 1))
                + length ps + hd ps = n"
      using Cons.IH Cons.prems Cons by simp
    have ne: "ps \<noteq> []" using Cons by simp
    have "(\<Sum>i\<leftarrow>[0..<length (p # ps)].
              (if i + 1 < length (p # ps) then (p # ps) ! (i + 1) else n) - ((p # ps) ! i + 1))
          = (hd ps - (p + 1))
            + (\<Sum>i\<leftarrow>[0..<length ps]. (if i + 1 < length ps then ps ! (i + 1) else n) - (ps ! i + 1))"
      using ne by (simp add: map_upt_Suc hd_conv_nth del: upt_Suc cong: if_cong)
    with IH pq Cons show ?thesis by simp
  qed
qed


lemma length_assign_col0: "seg \<noteq> [] \<Longrightarrow> length (assign_col0 m seg) = length seg"
  by (simp add: assign_col0_def)

lemma table_nth:
  assumes "\<forall>p \<in> set pr. p < length (rows df)" "i < length pr" "seg_start pr i < seg_end df pr i"
  shows "tables df pr ! i = map (\<lambda>j. (rows df ! j)[0 := CNaN]) [seg_start pr i..<seg_end df pr i]"
proof -
  have le: "seg_end df pr i \<le> length (rows df)"
    using assms(1,2) by (rule seg_end_le)
  have "tables df pr ! i
        = assign_col0 (rows df ! (pr ! i)) (map (\<lambda>j. rows df ! j) [seg_start pr i..<seg_end df pr i])"
    using assms(2) by (simp add: tables_def segment_slice[OF le assms(3)])
  also have "\<dots> = map (\<lambda>j. (rows df ! j)[0 := CNaN]) [seg_start pr i..<seg_end df pr i]"
    using assms(3) by (simp add: assign_col0_def comp_def)
  finally show ?thesis .
qed

lemma length_tables: "length (tables df pr) = length pr"
  by (simp add: tables_def)

lemma tables_lengths:
  assumes "\<forall>p \<in> set pr. p < length (rows df)"
    and "\<forall>i<length pr. seg_start pr i < seg_end df pr i"
  shows "map length (tables df pr)
         = map (\<lambda>i. (if i + 1 < length pr then pr ! (i + 1) else length (rows df)) - (pr ! i + 1))
               [0..<length pr]"
proof (rule nth_equalityI)
  show "length (map length (tables df pr)) = length (map (\<lambda>i. (if i + 1 < length pr then pr ! (i + 1) else length (rows df)) - (pr ! i + 1)) [0..<length pr])"
    by (simp add: tables_def)
next
  fix i assume "i < length (map length (tables df pr))"
  then have i: "i < length pr" by (simp add: length_tables)
  then have ne: "seg_start pr i < seg_end df pr i" using assms(2) by simp
  have "length (tables df pr ! i) = seg_end df pr i - seg_start pr i"
    by (simp add: table_nth[OF assms(1) i ne])
  then have "length (tables df pr ! i)
             = (if i + 1 < length pr then pr ! (i + 1) else length (rows df)) - (pr ! i + 1)"
    by (simp add: seg_end_def seg_start_def)
  then show "map length (tables df pr) ! i
             = map (\<lambda>i. (if i + 1 < length pr then pr ! (i + 1) else length (rows df)) - (pr ! i + 1)) [0..<length pr] ! i"
    using i by (simp add: length_tables)
qed

lemma marker_has_columns:
  assumes "wf_df df" "process_rows kw df \<noteq> []"
  shows "columns df \<noteq> []"
proof -
  from assms(2) obtain p where p: "p \<in> set (process_rows kw df)"
    by (cases "process_rows kw df") auto
  then have "p < length (rows df)" "is_marker kw (rows df ! p)"
    by (simp_all add: process_rows_def)
  then have "rows df ! p \<in> set (rows df)" "rows df ! p \<noteq> []"
    by (auto simp: is_marker_def split: option.splits list.splits)
  with assms(1) show ?thesis
    by (auto simp: wf_df_def list_all_iff)
qed

text \<open>
  C1, amended. In a sheet with \<open>K \<ge> 1\<close> marker rows, extraction succeeds and produces
  exactly \<open>K\<close> segments, in marker order. A segment whose marker row is followed by at
  least one row before the next marker row (or the end of the sheet) consists of exactly
  the rows strictly after its marker row up to, and excluding, the next marker row or
  the end of the sheet, each with column 0 overwritten by the tagging step. The rows
  before the first marker row belong to no segment: when no segment is empty, the
  segment row counts sum to the total number of rows, minus \<open>K\<close>, minus the number of
  rows before the first marker row.
\<close>

theorem extraction_segments:
  assumes "wf_df df" and "process_rows (header_keyword self) df = pr" and "pr \<noteq> []"
  shows "load_excel self (Some df)
           = Inr (df\<lparr>rows := iloc_slice (start_table self) (end_table self)
                                (concat (tables df pr))\<rparr>)
    \<and> length pr = length (filter (is_marker (header_keyword self)) (rows df))
    \<and> sorted_wrt (<) pr
    \<and> set pr = {j. j < length (rows df) \<and> is_marker (header_keyword self) (rows df ! j)}
    \<and> length (tables df pr) = length pr
    \<and> (\<forall>i<length pr. seg_start pr i < seg_end df pr i \<longrightarrow>
          tables df pr ! i
            = map (\<lambda>j. (rows df ! j)[0 := CNaN]) [seg_start pr i..<seg_end df pr i])
    \<and> ((\<forall>i<length pr. seg_start pr i < seg_end df pr i) \<longrightarrow>
          sum_list (map length (tables df pr)) = length (rows df) - length pr - hd pr)"
proof -
  have bound: "\<forall>p \<in> set pr. p < length (rows df)"
    using assms(2) process_rows_bound by blast
  have srt: "sorted_wrt (<) pr"
    using assms(2) process_rows_sorted by blast
  have cols: "columns df \<noteq> []"
    using marker_has_columns assms by blast
  have 1: "load_excel self (Some df)
           = Inr (df\<lparr>rows := iloc_slice (start_table self) (end_table self)
                                (concat (tables df pr))\<rparr>)"
    using assms(2,3) cols by (simp add: load_excel_def Let_def)
  have 2: "length pr = length (filter (is_marker (header_keyword self)) (rows df))"
    using assms(2) process_rows_count by blast
  have 4: "set pr = {j. j < length (rows df) \<and> is_marker (header_keyword self) (rows df ! j)}"
    using assms(2) process_rows_set by blast
  have 5: "length (tables df pr) = length pr"
    by (simp add: tables_def)
  have 6: "\<forall>i<length pr. seg_start pr i < seg_end df pr i \<longrightarrow>
          tables df pr ! i
            = map (\<lambda>j. (rows df ! j)[0 := CNaN]) [seg_start pr i..<seg_end df pr i]"
    using table_nth[OF bound] by blast
  have 7: "(\<forall>i<length pr. seg_start pr i < seg_end df pr i) \<longrightarrow>
          sum_list (map length (tables df pr)) = length (rows df) - length pr - hd pr"
  proof
    assume ne: "\<forall>i<length pr. seg_start pr i < seg_end df pr i"
    have "sum_list (map length (tables df pr)) + length pr + hd pr = length (rows df)"
      using range_sum[OF srt bound assms(3)] by (simp add: tables_lengths[OF bound ne])
    then show "sum_list (map length (tables df pr)) = length (rows df) - length pr - hd pr"
      by simp
  qed
  from 1 2 srt 4 5 6 7 show ?thesis by blast
qed

theorem extraction_segments_witness:
  "wf_df sheet_two_tables
   \<and> process_rows (Some ''H'') sheet_two_tables = [1, 3]
   \<and> seg_start [1, 3] 0 < seg_end sheet_two_tables [1, 3] 0
   \<and> seg_start [1, 3] 1 < seg_end sheet_two_tables [1, 3] 1
   \<and> tables sheet_two_tables [1, 3] ! 0 = [[CNaN, CNum 2]]
   \<and> tables sheet_two_tables [1, 3] ! 1 = [[CNaN, CNum 4]]
   \<and> sum_list (map length (tables sheet_two_tables [1, 3])) = 5 - 2 - 1
   \<and> load_excel (configure_defaults\<lparr>header_keyword := Some ''H''\<rparr>) (Some sheet_two_tables)
       = Inr \<lparr> columns = [''A'', ''B''], rows = [[CNaN, CNum 2], [CNaN, CNum 4]] \<rparr>"
proof -
  let ?S = sheet_two_tables
  let ?self = "configure_defaults\<lparr>header_keyword := Some ''H''\<rparr>"
  have h1: "wf_df ?S"
    by code_simp
  have h2: "process_rows (header_keyword ?self) ?S = [1, 3]"
    by code_simp
  have h3: "[1, 3 :: nat] \<noteq> []"
    by simp
  have s0: "seg_start [1, 3] 0 < seg_end ?S [1, 3] 0"
    by code_simp
  have s1: "seg_start [1, 3] 1 < seg_end ?S [1, 3] 1"
    by code_simp
  have every: "\<forall>i<length [1, 3 :: nat]. seg_start [1, 3] i < seg_end ?S [1, 3] i"
    using s0 s1 by (auto simp: less_Suc_eq)
  have r0: "map (\<lambda>j. (rows ?S ! j)[0 := CNaN]) [seg_start [1, 3] 0..<seg_end ?S [1, 3] 0]
            = [[CNaN, CNum 2]]"
    by code_simp
  have r1: "map (\<lambda>j. (rows ?S ! j)[0 := CNaN]) [seg_start [1, 3] 1..<seg_end ?S [1, 3] 1]
            = [[CNaN, CNum 4]]"
    by code_simp
  have len: "length (rows ?S) = 5"
    by code_simp
  have whole: "?S\<lparr>rows := iloc_slice (start_table ?self) (end_table ?self)
                           (concat (tables ?S [1, 3]))\<rparr>
               = \<lparr> columns = [''A'', ''B''], rows = [[CNaN, CNum 2], [CNaN, CNum 4]] \<rparr>"
    by code_simp
  note T = extraction_segments[OF h1 h2 h3]
  have T1: "load_excel ?self (Some ?S)
            = Inr (?S\<lparr>rows := iloc_slice (start_table ?self) (end_table ?self)
                                 (concat (tables ?S [1, 3]))\<rparr>)"
    using T by blast
  have T6: "\<forall>i<length [1, 3 :: nat]. seg_start [1, 3] i < seg_end ?S [1, 3] i \<longrightarrow>
      tables ?S [1, 3] ! i
        = map (\<lambda>j. (rows ?S ! j)[0 := CNaN]) [seg_start [1, 3] i..<seg_end ?S [1, 3] i]"
    using T by blast
  have T7: "sum_list (map length (tables ?S [1, 3]))
            = length (rows ?S) - length [1, 3 :: nat] - hd [1, 3 :: nat]"
    using T every by blast
  have l0: "0 < length [1, 3 :: nat]" and l1: "1 < length [1, 3 :: nat]"
    by simp_all
  have t0: "tables ?S [1, 3] ! 0 = [[CNaN, CNum 2]]"
    using T6 l0 s0 r0 by metis
  have t1: "tables ?S [1, 3] ! 1 = [[CNaN, CNum 4]]"
    using T6 l1 s1 r1 by metis
  have t7: "sum_list (map length (tables ?S [1, 3])) = 5 - 2 - 1"
    using T7 len by simp
  have p: "process_rows (Some ''H'') ?S = [1, 3]"
    using h2 by simp
  have t8: "load_excel ?self (Some ?S)
            = Inr \<lparr> columns = [''A'', ''B''], rows = [[CNaN, CNum 2], [CNaN, CNum 4]] \<rparr>"
    using T1 whole by simp
  from h1 p s0 s1 t0 t1 t7 t8 show ?thesis by blast
qed

text \<open>
  C1 as the specification words it fails on a sheet with a row before its first marker
  row: one marker, three rows, and a single segment of one row, not of two.
\<close>

theorem extraction_leading_row_counterexample:
  "length (filter (is_marker (Some ''H'')) (rows sheet_leading_row)) = 1
   \<and> tables sheet_leading_row (process_rows (Some ''H'') sheet_leading_row)
       = [[[CNaN, CNum 2]]]
   \<and> sum_list (map length (tables sheet_leading_row
                                (process_rows (Some ''H'') sheet_leading_row)))
       \<noteq> length (rows sheet_leading_row) - 1
   \<and> load_excel (configure_defaults\<lparr>header_keyword := Some ''H''\<rparr>) (Some sheet_leading_row)
       = Inr \<lparr> columns = [''A'', ''B''], rows = [[CNaN, CNum 2]] \<rparr>"
  by code_simp

text \<open>
  A segment without rows is not covered by the statement above. The tagging step turns
  it into one row per column: the marker row directly followed by another marker row
  yields two rows here.
\<close>

lemma empty_segment_rows:
  "tables sheet_adjacent_markers (process_rows (Some ''H'') sheet_adjacent_markers)
     = [[[CStr ''H'', CNaN], [CNum 1, CNaN]], [[CNaN, CNum 3]]]"
  by code_simp

subsection \<open>The filter\<close>




lemma getitem_present:
  assumes "set ns \<subseteq> set (columns df)"
  shows "getitem_columns df ns
         = Inr \<lparr> columns = ns, rows = map (\<lambda>r. map (cell_at (columns df) r) ns) (rows df) \<rparr>"
proof -
  have "filter (\<lambda>n. n \<notin> set (columns df)) ns = []"
    using assms by (auto simp: filter_empty_conv)
  then show ?thesis by (simp add: getitem_columns_def Let_def)
qed



lemma sequence_length: "sequence xs = Inr vs \<Longrightarrow> length vs = length xs"
  by (induction xs arbitrary: vs) (auto split: sum.splits)

lemma column_length: "column df c = Inr xs \<Longrightarrow> length xs = length (rows df)"
  by (auto simp: column_def split: option.splits)

lemma operand_values_length: "operand_values df x = Inr xs \<Longrightarrow> length xs = length (rows df)"
  by (cases x) (auto simp: column_length)

lemma eval_mask_length: "eval_mask df e = Inr m \<Longrightarrow> length m = length (rows df)"
proof (induction e arbitrary: m)
  case (Cmp op c rhs)
  then show ?case
    by (auto split: sum.splits dest!: sequence_length column_length operand_values_length)
next
  case (CmpLit op l c)
  then show ?case
    by (auto split: sum.splits dest!: sequence_length column_length)
next
  case (AndE a b)
  then show ?case by (auto split: sum.splits)
next
  case (OrE a b)
  then show ?case by (auto split: sum.splits)
next
  case (NotE a)
  then show ?case by (auto split: sum.splits)
qed

text \<open>
  C9. \<^verbatim>\<open>filter_data\<close> evaluates the where clause on the table with all its columns
  and selects the columns of the rows that remain: its result is the column selection
  applied to the result of the query. So when every name of the where clause is a column
  of the table, the comparisons raise no error and every selected name is a column,
  the call succeeds with the selected columns of the rows that the where clause keeps,
  whether or not the names of the where clause are among the selected columns.
\<close>

theorem where_before_select:
  "filter_data df sel (Some e)
     = (case query df e of Inl err \<Rightarrow> Inl err | Inr d \<Rightarrow> filter_data d sel None)
   \<and> (s \<noteq> [] \<and> set (names e) \<subseteq> set (columns df) \<and> eval_mask df e = Inr m
        \<and> set (split_comma s) \<subseteq> set (columns df) \<longrightarrow>
       length m = length (rows df)
       \<and> filter_data df (Some s) (Some e)
          = Inr \<lparr> columns = split_comma s,
                  rows = map (\<lambda>r. map (cell_at (columns df) r) (split_comma s))
                             (map fst (filter snd (zip (rows df) m))) \<rparr>)"
proof (intro conjI impI)
  show "filter_data df sel (Some e)
     = (case query df e of Inl err \<Rightarrow> Inl err | Inr d \<Rightarrow> filter_data d sel None)"
    by (simp add: filter_data_def split: sum.splits)
next
  assume a: "s \<noteq> [] \<and> set (names e) \<subseteq> set (columns df) \<and> eval_mask df e = Inr m
        \<and> set (split_comma s) \<subseteq> set (columns df)"
  then show "length m = length (rows df)" using eval_mask_length by blast
  from a have "unresolved df e = []"
    by (auto simp: unresolved_def filter_empty_conv)
  with a have q: "query df e = Inr (df\<lparr>rows := map fst (filter snd (zip (rows df) m))\<rparr>)"
    by (simp add: query_def)
  from a have "getitem_columns (df\<lparr>rows := map fst (filter snd (zip (rows df) m))\<rparr>) (split_comma s)
     = Inr \<lparr> columns = split_comma s,
                  rows = map (\<lambda>r. map (cell_at (columns df) r) (split_comma s))
                             (map fst (filter snd (zip (rows df) m))) \<rparr>"
    using getitem_present[of "split_comma s" "df\<lparr>rows := map fst (filter snd (zip (rows df) m))\<rparr>"]
    by simp
  with q a show "filter_data df (Some s) (Some e)
          = Inr \<lparr> columns = split_comma s,
                  rows = map (\<lambda>r. map (cell_at (columns df) r) (split_comma s))
                             (map fst (filter snd (zip (rows df) m))) \<rparr>"
    by (simp add: filter_data_def)
qed

theorem where_before_select_witness:
  "''SIZE'' \<notin> set (split_comma ''NOTE,DOG'')
   \<and> filter_data measurements (Some ''NOTE,DOG'') (Some (Cmp Eq ''SIZE'' (Lit (NumLit 25))))
       = Inr \<lparr> columns = [''NOTE'', ''DOG''],
               rows = [[CStr ''a'', CStr ''DOG_t''], [CNaN, CStr ''DOG_u'']] \<rparr>"
proof -
  let ?e = "Cmp Eq ''SIZE'' (Lit (NumLit 25))"
  have sp: "split_comma ''NOTE,DOG'' = [''NOTE'', ''DOG'']" by simp
  have c: "columns measurements = [''DOG'', ''SIZE'', ''NOTE'']"
    by (simp add: measurements_def)
  have m: "eval_mask measurements ?e = Inr [True, True, False]"
    by code_simp
  have h: "''NOTE,DOG'' \<noteq> [] \<and> set (names ?e) \<subseteq> set (columns measurements)
           \<and> eval_mask measurements ?e = Inr [True, True, False]
           \<and> set (split_comma ''NOTE,DOG'') \<subseteq> set (columns measurements)"
    using m by (simp add: c sp)
  have v: "map (\<lambda>r. map (cell_at (columns measurements) r) [''NOTE'', ''DOG''])
             (map fst (filter snd (zip (rows measurements) [True, True, False])))
           = [[CStr ''a'', CStr ''DOG_t''], [CNaN, CStr ''DOG_u'']]"
    by code_simp
  from h where_before_select[of measurements None ?e "''NOTE,DOG''" "[True, True, False]"]
  have "filter_data measurements (Some ''NOTE,DOG'') (Some ?e)
        = Inr \<lparr> columns = split_comma ''NOTE,DOG'',
                rows = map (\<lambda>r. map (cell_at (columns measurements) r) (split_comma ''NOTE,DOG''))
                         (map fst (filter snd (zip (rows measurements) [True, True, False]))) \<rparr>"
    by blast
  then have "filter_data measurements (Some ''NOTE,DOG'') (Some ?e)
        = Inr \<lparr> columns = [''NOTE'', ''DOG''],
                rows = [[CStr ''a'', CStr ''DOG_t''], [CNaN, CStr ''DOG_u'']] \<rparr>"
    unfolding sp v .
  then show ?thesis by (simp add: sp)
qed

subsection \<open>The output document\<close>

lemma dict_get_set:
  "dict_get (dict_set d k v) k' = (if norm_key k' = norm_key k then Some v else dict_get d k')"
  by (induction d) auto

lemma dict_get_norm: "norm_key a = norm_key b \<Longrightarrow> dict_get d a = dict_get d b"
  by (induction d) auto

lemma keys_dict_set:
  "map fst (dict_set d k v) = (if dict_get d k = None then map fst d @ [k] else map fst d)"
  by (induction d) (auto split: if_splits)

lemma merge_leaf_SomeD:
  assumes "merge_leaf doc rk g k data = Some doc'"
  obtains root grp cat where "doc = PDict root" "hashable rk"
    "(case dict_get root rk of Some x \<Rightarrow> x | None \<Rightarrow> PDict []) = PDict grp"
    "(case dict_get grp (PStr g) of Some c \<Rightarrow> c | None \<Rightarrow> PDict []) = PDict cat"
    "doc' = PDict (dict_set root rk
              (PDict (dict_set grp (PStr g) (PDict (dict_set cat (PStr k) data)))))"
proof (cases doc)
  case (PDict root)
  note d = this
  from assms d have h: "hashable rk"
    by (simp add: merge_leaf_def split: if_splits)
  show ?thesis
  proof (cases "case dict_get root rk of Some x \<Rightarrow> x | None \<Rightarrow> PDict []")
    case (PDict grp)
    note g = this
    show ?thesis
    proof (cases "case dict_get grp (PStr g) of Some c \<Rightarrow> c | None \<Rightarrow> PDict []")
      case (PDict cat)
      with assms d h g that show ?thesis
        by (simp add: merge_leaf_def)
    qed (use assms d h g in \<open>simp_all add: merge_leaf_def\<close>)
  qed (use assms d h in \<open>simp_all add: merge_leaf_def\<close>)
qed (use assms in \<open>simp_all add: merge_leaf_def\<close>)

lemma leaf_at_dict:
  "leaf_at (PDict d) r g k
   = (case dict_get d r of
        Some (PDict gd) \<Rightarrow>
          (case dict_get gd g of Some (PDict cd) \<Rightarrow> dict_get cd k | _ \<Rightarrow> None)
      | _ \<Rightarrow> None)"
  by (simp add: leaf_at_def sub_def split: option.splits pyval.splits)

lemma merge_leaf_frame:
  assumes "merge_leaf doc rk g k data = Some doc'"
  shows "leaf_at doc' r' g' k'
         = (if norm_key r' = norm_key rk \<and> norm_key g' = PStr g \<and> norm_key k' = PStr k
            then Some data else leaf_at doc r' g' k')"
proof -
  from assms obtain root grp cat where
    d: "doc = PDict root"
    and gr: "(case dict_get root rk of Some x \<Rightarrow> x | None \<Rightarrow> PDict []) = PDict grp"
    and ct: "(case dict_get grp (PStr g) of Some c \<Rightarrow> c | None \<Rightarrow> PDict []) = PDict cat"
    and d': "doc' = PDict (dict_set root rk
              (PDict (dict_set grp (PStr g) (PDict (dict_set cat (PStr k) data)))))"
    by (rule merge_leaf_SomeD)
  show ?thesis
  proof (cases "norm_key r' = norm_key rk")
    case False
    then show ?thesis
      by (simp add: d d' leaf_at_dict dict_get_set)
  next
    case r: True
    then have rr: "dict_get root r' = dict_get root rk"
      by (rule dict_get_norm)
    have old_g: "leaf_at doc r' g' k'
                 = (case dict_get grp g' of Some (PDict cd) \<Rightarrow> dict_get cd k' | _ \<Rightarrow> None)"
      using gr by (simp add: d leaf_at_dict rr split: option.splits)
    show ?thesis
    proof (cases "norm_key g' = PStr g")
      case False
      then show ?thesis
        using r by (simp add: d' leaf_at_dict dict_get_set old_g)
    next
      case g: True
      then have gg: "dict_get grp g' = dict_get grp (PStr g)"
        using dict_get_norm[of g' "PStr g" grp] by simp
      have old_k: "leaf_at doc r' g' k' = dict_get cat k'"
        using ct by (simp add: old_g gg split: option.splits)
      show ?thesis
        using r g by (simp add: d' leaf_at_dict dict_get_set old_k)
    qed
  qed
qed

lemma merge_leaf_keys:
  assumes "merge_leaf (PDict root) rk g k data = Some doc'"
  shows "\<exists>root'. doc' = PDict root'
           \<and> map fst root' = (if dict_get root rk = None then map fst root @ [rk] else map fst root)"
proof -
  from assms obtain root0 grp cat where
    "PDict root = PDict root0"
    "doc' = PDict (dict_set root0 rk
              (PDict (dict_set grp (PStr g) (PDict (dict_set cat (PStr k) data)))))"
    by (rule merge_leaf_SomeD)
  then show ?thesis by (simp add: keys_dict_set)
qed

lemma write_document_outcome:
  "fst (write_document c fmt doc) = Returned None
   \<or> fst (write_document c fmt doc) = Raised NotSerializable
   \<or> fst (write_document c fmt doc) = Raised YamlDumpFailed"
  by (simp add: write_document_def split: format.splits option.splits)

text \<open>
  C4. When the target file exists and its detected format is CSV, the merge raises
  \<open>UnsupportedIncrementalUpdate\<close> and the file keeps its text: nothing is written.
\<close>

theorem csv_target_rejected:
  "detect_file_format t = Inr Csv \<Longrightarrow>
   update_output_file c (Some t) data parser data_group category
     = (Raised UnsupportedIncrementalUpdate, Text t)"
  by (simp add: update_output_file_def)

theorem csv_target_rejected_witness:
  "detect_file_format ''a,b,c'' = Inr Csv
   \<and> update_output_file no_codecs (Some ''a,b,c'') (PList []) rooted ''G'' ''C''
       = (Raised UnsupportedIncrementalUpdate, Text ''a,b,c'')"
proof -
  have h: "detect_file_format ''a,b,c'' = Inr Csv"
    by (simp add: detect_file_format_def text_eval)
  from h csv_target_rejected[OF h, of no_codecs "PList []" rooted "''G''" "''C''"]
  show ?thesis by blast
qed

text \<open>
  C6, amended. A failure of the merge before the write step leaves the target file as
  it was. A failure to detect the format of the existing file is printed, and
  \<^verbatim>\<open>update_output_file\<close> then returns as it does after a successful write: no exception
  reaches its caller. The other failures before the write step are raised: the CSV
  target, the document that cannot be read, decoded or merged, and the root key that
  cannot be a dictionary key. Every outcome other than a completed write or an exception
  of the encoder leaves the file untouched.
\<close>

theorem failures_before_write:
  "(f = Some t \<and> detect_file_format t = Inl e \<longrightarrow>
      update_output_file c f data parser g k = (Returned (Some e), Text t))
   \<and> (f = Some t \<and> detect_file_format t = Inr Csv \<longrightarrow>
      update_output_file c f data parser g k = (Raised UnsupportedIncrementalUpdate, Text t))
   \<and> (f = Some t \<and> detect_file_format t = Inr fmt \<and> fmt \<noteq> Csv
        \<and> read_and_merge c fmt t parser g k data = None \<longrightarrow>
      update_output_file c f data parser g k = (Raised DocumentParseError, Text t))
   \<and> (f = None \<and> \<not> hashable (data_structure parser) \<longrightarrow>
      update_output_file c f data parser g k = (Raised Unhashable, Absent))
   \<and> (fst (update_output_file c f data parser g k) \<noteq> Returned None
        \<and> fst (update_output_file c f data parser g k) \<noteq> Raised NotSerializable
        \<and> fst (update_output_file c f data parser g k) \<noteq> Raised YamlDumpFailed \<longrightarrow>
      snd (update_output_file c f data parser g k) = file_of f)"
proof (intro conjI impI)
  assume "fst (update_output_file c f data parser g k) \<noteq> Returned None
        \<and> fst (update_output_file c f data parser g k) \<noteq> Raised NotSerializable
        \<and> fst (update_output_file c f data parser g k) \<noteq> Raised YamlDumpFailed"
  then show "snd (update_output_file c f data parser g k) = file_of f"
    using write_document_outcome[of c]
    by (auto simp: update_output_file_def file_of_def split: option.splits sum.splits if_splits)
qed (simp_all add: update_output_file_def)

theorem failures_before_write_witness:
  "update_output_file no_codecs (Some ''???'') (PList []) rooted ''G'' ''C''
     = (Returned (Some UnknownFormat), Text ''???'')
   \<and> update_output_file no_codecs (Some ''a,b,c'') (PList []) rooted ''G'' ''C''
     = (Raised UnsupportedIncrementalUpdate, Text ''a,b,c'')
   \<and> update_output_file no_codecs (Some ''{x'') (PList []) rooted ''G'' ''C''
     = (Raised DocumentParseError, Text ''{x'')
   \<and> update_output_file no_codecs None (PList []) configure_defaults ''G'' ''C''
     = (Raised Unhashable, Absent)
   \<and> snd (update_output_file no_codecs (Some ''{x'') (PList []) rooted ''G'' ''C'')
     = file_of (Some ''{x'')"
proof -
  have h1: "Some ''???'' = Some ''???'' \<and> detect_file_format ''???'' = Inl UnknownFormat"
    by (simp add: detect_file_format_def text_eval)
  have h2: "Some ''a,b,c'' = Some ''a,b,c'' \<and> detect_file_format ''a,b,c'' = Inr Csv"
    by (simp add: detect_file_format_def text_eval)
  have h3: "Some ''{x'' = Some ''{x'' \<and> detect_file_format ''{x'' = Inr Json \<and> Json \<noteq> Csv
            \<and> read_and_merge no_codecs Json ''{x'' rooted ''G'' ''C'' (PList []) = None"
    by (simp add: detect_file_format_def text_eval read_and_merge_def no_codecs_def)
  have h4: "(None :: string option) = None \<and> \<not> hashable (data_structure configure_defaults)"
    by (simp add: configure_defaults_def)
  from h1 failures_before_write[of "Some ''???''" "''???''" UnknownFormat no_codecs "PList []" rooted "''G''" "''C''"]
  have a: "update_output_file no_codecs (Some ''???'') (PList []) rooted ''G'' ''C''
     = (Returned (Some UnknownFormat), Text ''???'')"
    by blast
  from h2 failures_before_write[of "Some ''a,b,c''" "''a,b,c''" _ no_codecs "PList []" rooted "''G''" "''C''"]
  have b: "update_output_file no_codecs (Some ''a,b,c'') (PList []) rooted ''G'' ''C''
     = (Raised UnsupportedIncrementalUpdate, Text ''a,b,c'')"
    by blast
  note T3 = failures_before_write[of "Some ''{x''" "''{x''" _ no_codecs "PList []" rooted "''G''" "''C''" Json]
  from h3 T3
  have c: "update_output_file no_codecs (Some ''{x'') (PList []) rooted ''G'' ''C''
     = (Raised DocumentParseError, Text ''{x'')"
    by blast
  from h4 failures_before_write[of None _ _ no_codecs "PList []" configure_defaults "''G''" "''C''"]
  have d: "update_output_file no_codecs None (PList []) configure_defaults ''G'' ''C''
     = (Raised Unhashable, Absent)"
    by blast
  have "fst (update_output_file no_codecs (Some ''{x'') (PList []) rooted ''G'' ''C'') \<noteq> Returned None
        \<and> fst (update_output_file no_codecs (Some ''{x'') (PList []) rooted ''G'' ''C'') \<noteq> Raised NotSerializable
        \<and> fst (update_output_file no_codecs (Some ''{x'') (PList []) rooted ''G'' ''C'') \<noteq> Raised YamlDumpFailed"
    by (simp add: c)
  with T3
  have e: "snd (update_output_file no_codecs (Some ''{x'') (PList []) rooted ''G'' ''C'')
     = file_of (Some ''{x'')"
    by blast
  from a b c d e show ?thesis by blast
qed

text \<open>
  C6 as the specification words it fails: on a file of unknown format the failure does
  not surface as an exception of \<^verbatim>\<open>update_output_file\<close>, which returns.
\<close>

theorem detection_failure_returns_counterexample:
  "detect_file_format ''???'' = Inl UnknownFormat
   \<and> update_output_file no_codecs (Some ''???'') (PList []) rooted ''G'' ''C''
       = (Returned (Some UnknownFormat), Text ''???'')
   \<and> fst (update_output_file no_codecs (Some ''???'') (PList []) rooted ''G'' ''C'')
       \<noteq> Raised UnknownFormat"
  by (simp add: update_output_file_def detect_file_format_def text_eval)

text \<open>
  C2. With no file at the target path, \<^verbatim>\<open>update_output_file\<close> does not write the fresh
  document. Configured as \<^verbatim>\<open>configure\<close> leaves it by default, \<^verbatim>\<open>data_structure\<close> is a
  dictionary, which cannot be the key of the fresh document: the call raises
  \<^verbatim>\<open>TypeError\<close> and no file is created. With a name as \<^verbatim>\<open>data_structure\<close>, the frame
  that \<^verbatim>\<open>filter_data\<close> returns is handed to \<^verbatim>\<open>json.dump\<close> as it is (\<^verbatim>\<open>output_data\<close>
  converts it with \<^verbatim>\<open>to_dict(orient='records')\<close> first; \<^verbatim>\<open>update_output_file\<close> does
  not): the encoder raises \<^verbatim>\<open>TypeError\<close> and leaves a torn file.
\<close>

theorem fresh_document_not_written:
  "update_output_file c None data configure_defaults g k = (Raised Unhashable, Absent)
   \<and> update_output_file c None (PFrame df) (parser\<lparr>data_structure := PStr rk\<rparr>) g k
       = (Raised NotSerializable, Torn)"
  by (simp add: update_output_file_def configure_defaults_def write_document_def)

lemma json_key_hashable: "json_key_ok v \<Longrightarrow> hashable v"
  by (cases v) simp_all

text \<open>
  What the fresh-document branch does for a root key and a table that JSON can encode.
\<close>

lemma fresh_document_written:
  assumes "json_key_ok rk" "json_serializable data"
  shows "update_output_file c None data (parser\<lparr>data_structure := rk\<rparr>) g k
         = (Returned None,
            Text (json_text c (PDict [(rk, PDict [(PStr g, PDict [(PStr k, data)])])])))"
  using assms json_key_hashable[OF assms(1)]
  by (simp add: update_output_file_def write_document_def)

text \<open>
  C3. An existing JSON document with one leaf, merged with the frame that
  \<^verbatim>\<open>filter_data\<close> returns: the merge in memory succeeds, \<^verbatim>\<open>json.dump\<close> raises
  \<^verbatim>\<open>TypeError\<close> on the frame after the file was opened for writing, and the file is
  left torn, its former leaf lost. Configured as \<^verbatim>\<open>configure\<close> leaves it by default,
  the root key is the empty dictionary, the merge raises, and the document is not
  updated.
\<close>

theorem merged_frame_not_written:
  "detect_file_format ''{old}'' = Inr Json
   \<and> json_loads one_codecs ''{old}'' = Some old_document
   \<and> leaf_at old_document (PStr ''ROOT'') (PStr ''G0'') (PStr ''C0'') = Some (PList [])
   \<and> update_output_file one_codecs (Some ''{old}'') (PFrame measurements) rooted ''G'' ''C''
       = (Raised NotSerializable, Torn)
   \<and> update_output_file one_codecs (Some ''{old}'') (PFrame measurements) configure_defaults
         ''G'' ''C''
       = (Raised DocumentParseError, Text ''{old}'')"
proof -
  have d: "detect_file_format ''{old}'' = Inr Json"
    by (simp add: detect_file_format_def text_eval)
  have l: "json_loads one_codecs ''{old}'' = Some old_document"
    by (simp add: one_codecs_def)
  have v: "leaf_at old_document (PStr ''ROOT'') (PStr ''G0'') (PStr ''C0'') = Some (PList [])"
    by (simp add: old_document_def leaf_at_def sub_def)
  have m: "read_and_merge one_codecs Json ''{old}'' rooted ''G'' ''C'' (PFrame measurements)
           = Some (PDict [(PStr ''ROOT'',
                     PDict [(PStr ''G0'', PDict [(PStr ''C0'', PList [])]),
                            (PStr ''G'', PDict [(PStr ''C'', PFrame measurements)])])])"
    by (simp add: read_and_merge_def l rooted_def root_key_def merge_leaf_def old_document_def)
  have w: "update_output_file one_codecs (Some ''{old}'') (PFrame measurements) rooted ''G'' ''C''
       = (Raised NotSerializable, Torn)"
    by (simp add: update_output_file_def d m write_document_def)
  have n: "read_and_merge one_codecs Json ''{old}'' configure_defaults ''G'' ''C''
             (PFrame measurements) = None"
    by (simp add: read_and_merge_def l configure_defaults_def root_key_def merge_leaf_def
        old_document_def)
  have x: "update_output_file one_codecs (Some ''{old}'') (PFrame measurements) configure_defaults
         ''G'' ''C''
       = (Raised DocumentParseError, Text ''{old}'')"
    by (simp add: update_output_file_def d n)
  from d l v w x show ?thesis by blast
qed

text \<open>
  What the merge does when it succeeds: the document is written in the detected format,
  the leaf at the root key, data group and category holds the new table, and every other
  leaf is as the decoded document had it; the keys of the top level keep their order, a
  new root key being added at the end.
\<close>

lemma merged_document_written:
  assumes "detect_file_format t = Inr fmt" "fmt \<noteq> Csv"
    and "read_and_merge c fmt t parser g k data = Some doc'"
  shows "update_output_file c (Some t) data parser g k = write_document c fmt doc'"
  using assms by (simp add: update_output_file_def)

lemma read_and_merge_frame:
  assumes "read_and_merge c fmt t parser g k data = Some doc'"
  shows "\<exists>doc rk. (if fmt = Json then json_loads c t else yaml_load c t) = Some doc
           \<and> root_key (data_structure parser) = Some rk
           \<and> (\<forall>r' g' k'. leaf_at doc' r' g' k'
                  = (if norm_key r' = norm_key rk \<and> norm_key g' = PStr g \<and> norm_key k' = PStr k
                     then Some data else leaf_at doc r' g' k'))"
proof -
  from assms obtain doc rk where
    1: "(if fmt = Json then json_loads c t else yaml_load c t) = Some doc"
    and 2: "root_key (data_structure parser) = Some rk"
    and 3: "merge_leaf doc rk g k data = Some doc'"
    by (auto simp: read_and_merge_def split: option.splits)
  from 3 have "\<forall>r' g' k'. leaf_at doc' r' g' k'
                  = (if norm_key r' = norm_key rk \<and> norm_key g' = PStr g \<and> norm_key k' = PStr k
                     then Some data else leaf_at doc r' g' k')"
    using merge_leaf_frame by blast
  with 1 2 show ?thesis by blast
qed

end
